theory Spec2Isabelle
  imports Main
begin

section \<open>Python values, errors and list primitives\<close>

text \<open>
  The values an option of a directive can resolve to: \<open>None\<close> (nothing configured),
  a flag (the converter \<open>option_default_true\<close>) or a text (the converter
  \<open>unchanged\<close>). Texts are lists of characters with code points below 256.
\<close>

datatype pyval = PNone | PBool bool | PStr string

text \<open>Python's truth value, as \<open>or\<close> and \<open>if\<close> test it.\<close>

fun truthy :: "pyval \<Rightarrow> bool" where
  "truthy PNone = False"
| "truthy (PBool b) = b"
| "truthy (PStr s) = (s \<noteq> [])"

text \<open>What an f-string renders for a value.\<close>

fun py_format :: "pyval \<Rightarrow> string" where
  "py_format PNone = ''None''"
| "py_format (PBool b) = (if b then ''True'' else ''False'')"
| "py_format (PStr s) = s"

text \<open>
  The exceptions that can leave the directives: a missing key, an index out of range,
  a class that cannot be located from the node, and whatever the generic signature
  handling of the documentation host raises.
\<close>

datatype error = KeyError | IndexError | ResolveError | HostError string

text \<open>\<open>xs[i]\<close>: a negative index counts from the end, an index out of range raises.\<close>

definition py_getitem :: "'a list \<Rightarrow> int \<Rightarrow> error + 'a" where
  "py_getitem xs i =
     (let j = (if i < 0 then int (length xs) + i else i)
      in if 0 \<le> j \<and> j < int (length xs) then Inr (xs ! nat j) else Inl IndexError)"

text \<open>\<open>s.split(sep)\<close> for a separator of one character: never the empty list.\<close>

fun py_split :: "char \<Rightarrow> string \<Rightarrow> string list" where
  "py_split sep [] = [[]]"
| "py_split sep (c # cs) =
     (if c = sep then [] # py_split sep cs
      else (case py_split sep cs of
              [] \<Rightarrow> [[c]]
            | w # ws \<Rightarrow> (c # w) # ws))"

section \<open>The node tree of the documentation host\<close>

text \<open>
  A node of the output tree is a text leaf or an element with a tag name, its
  \<open>classes\<close> attribute and its children.
\<close>

datatype node = Text string | Element string "string list" "node list"

fun tagname :: "node \<Rightarrow> string" where
  "tagname (Text t) = ''#text''"
| "tagname (Element t cls kids) = t"

text \<open>
  Modelled from the spec: the annotation node constructor of the host,
  \<open>desc_annotation(rawsource, text, classes=...)\<close>, is not part of the sources. It
  builds an annotation element that renders \<open>text\<close>.
\<close>

definition desc_annotation :: "string \<Rightarrow> string \<Rightarrow> string list \<Rightarrow> node" where
  "desc_annotation rawsource text cls = Element ''desc_annotation'' cls [Text text]"

text \<open>
  The rendered signature node: its attributes (among them the dotted \<open>fullname\<close>)
  and its list of children. The directives mutate it in place, so every operation
  below takes the node and returns it as it is when the operation returns or raises.
\<close>

record signode =
  attributes :: "string \<rightharpoonup> string"
  children :: "node list"

text \<open>\<open>signode[key]\<close> raises when the attribute is missing.\<close>

definition signode_getitem :: "signode \<Rightarrow> string \<Rightarrow> error + string" where
  "signode_getitem n key = (case attributes n key of None \<Rightarrow> Inl KeyError | Some v \<Rightarrow> Inr v)"

text \<open>\<open>signode += child\<close> appends one child.\<close>

definition append_child :: "signode \<Rightarrow> node \<Rightarrow> signode" where
  "append_child n c = n\<lparr>children := children n @ [c]\<rparr>"

text \<open>
  Modelled from the spec: \<open>remove_node_by_tagname(nodes, tagname)\<close> of the missing
  module \<open>util\<close>, the host's child removal by tag. It removes from the list, in
  place, the nodes that carry the tag.
\<close>

definition remove_node_by_tagname :: "node list \<Rightarrow> string \<Rightarrow> node list" where
  "remove_node_by_tagname nodes t = filter (\<lambda>c. tagname c \<noteq> t) nodes"

section \<open>Class metadata and the member wrapper\<close>

text \<open>
  The metadata of a documented class: its declared fields with their aliases, and the
  bindings of validators to fields in the order of their declaration.
\<close>

record model_field =
  name :: string
  field_alias :: string

record model_class =
  model_fields :: "model_field list"
  bindings :: "(string \<times> string) list"

text \<open>
  Modelled from the spec: \<open>ModelWrapper.get_field_object_by_name\<close> of the missing
  module \<open>inspection\<close> resolves a field by its declared name; a field that is not
  declared is a hard error.
\<close>

definition get_field_object_by_name :: "model_class \<Rightarrow> string \<Rightarrow> error + model_field" where
  "get_field_object_by_name w field_name =
     (case find (\<lambda>f. name f = field_name) (model_fields w) of
        None \<Rightarrow> Inl KeyError
      | Some f \<Rightarrow> Inr f)"

text \<open>
  Modelled from the spec: \<open>ModelWrapper.get_fields_for_validator\<close> of the missing
  module \<open>inspection\<close> reports the fields bound to a validator name, in the order
  in which the bindings are declared.
\<close>

definition get_fields_for_validator :: "model_class \<Rightarrow> string \<Rightarrow> string list" where
  "get_fields_for_validator w validator_name =
     map snd (filter (\<lambda>b. fst b = validator_name) (bindings w))"

section \<open>The directives\<close>

text \<open>The build environment holds the document-wide configuration.\<close>

record build_env =
  config :: "string \<rightharpoonup> pyval"

datatype directive_kind =
  PydanticModel | PydanticSettings | PydanticField | PydanticValidator | PydanticConfigClass

text \<open>A directive instance: its class, its own options and the build environment.\<close>

record directive =
  kind :: directive_kind
  options :: "string \<rightharpoonup> pyval"
  env :: build_env

text \<open>
  What the directives take from outside the sources: the generic signature handling of
  the base directive of the host (it is given the signature prefix the directive
  computes, the raw signature and the node), the constructor of a reference node for a
  field, and the lookup of the class that a dotted name on a node describes.
\<close>

record host =
  generic_handle_signature ::
    "string \<Rightarrow> string \<Rightarrow> signode \<Rightarrow> signode \<times> (error + string \<times> string)"
  create_field_href :: "string \<Rightarrow> build_env \<Rightarrow> node"
  locate :: "string \<rightharpoonup> model_class"

text \<open>
  Modelled from the spec: \<open>PydanticAutoDirective.get_option_value\<close> of the missing
  module \<open>util\<close>, the option resolver: the directive's own option when it is
  given, else the document-wide value, else nothing.
\<close>

definition get_option_value :: "directive \<Rightarrow> string \<Rightarrow> pyval" where
  "get_option_value d opt =
     (case options d opt of
        Some v \<Rightarrow> v
      | None \<Rightarrow> (case config (env d) opt of Some v \<Rightarrow> v | None \<Rightarrow> PNone))"

text \<open>
  Modelled from the spec: \<open>ModelWrapper.from_signode\<close> of the missing module
  \<open>inspection\<close> locates the one class the node describes from the dotted name on
  the node; a name that resolves to no class is a hard error.
\<close>

definition from_signode :: "host \<Rightarrow> signode \<Rightarrow> error + model_class" where
  "from_signode h n =
     (case attributes n ''fullname'' of
        None \<Rightarrow> Inl KeyError
      | Some dotted \<Rightarrow> (case locate h dotted of None \<Rightarrow> Inl ResolveError | Some w \<Rightarrow> Inr w))"

text \<open>The class attributes \<open>config_name\<close> and \<open>default_prefix\<close>.\<close>

fun config_name :: "directive_kind \<Rightarrow> string" where
  "config_name PydanticModel = ''model''"
| "config_name PydanticSettings = ''settings''"
| "config_name PydanticField = ''field''"
| "config_name PydanticValidator = ''validator''"
| "config_name PydanticConfigClass = ''config''"

fun default_prefix :: "directive_kind \<Rightarrow> string" where
  "default_prefix PydanticModel = ''class''"
| "default_prefix PydanticSettings = ''class''"
| "default_prefix PydanticField = ''attribute''"
| "default_prefix PydanticValidator = ''classmethod''"
| "default_prefix PydanticConfigClass = ''class''"

text \<open>\<open>PydanticDirectiveBase.get_signature_prefix\<close>.\<close>

definition get_signature_prefix :: "directive \<Rightarrow> string \<Rightarrow> string" where
  "get_signature_prefix d sig =
     (let cfg = config_name (kind d) @ ''-signature-prefix'';
          prefix = get_option_value d cfg;
          v = (if truthy prefix then prefix else PStr (default_prefix (kind d)))
      in py_format v @ '' '')"

text \<open>
  \<open>super().handle_signature(sig, signode)\<close>: the generic handling of the host, which
  asks the directive for its signature prefix.
\<close>

definition super_handle_signature ::
  "host \<Rightarrow> directive \<Rightarrow> string \<Rightarrow> signode \<Rightarrow> signode \<times> (error + string \<times> string)" where
  "super_handle_signature h d sig n = generic_handle_signature h (get_signature_prefix d sig) sig n"

text \<open>\<open>PydanticField.add_alias\<close>.\<close>

definition add_alias :: "host \<Rightarrow> signode \<Rightarrow> signode \<times> (error + unit)" where
  "add_alias h n =
     (case signode_getitem n ''fullname'' of
        Inl e \<Rightarrow> (n, Inl e)
      | Inr fullname \<Rightarrow>
          (case py_getitem (py_split CHR ''.'' fullname) (- 1) of
             Inl e \<Rightarrow> (n, Inl e)
           | Inr field_name \<Rightarrow>
               (case from_signode h n of
                  Inl e \<Rightarrow> (n, Inl e)
                | Inr wrapper \<Rightarrow>
                    (case get_field_object_by_name wrapper field_name of
                       Inl e \<Rightarrow> (n, Inl e)
                     | Inr field \<Rightarrow>
                         (if field_alias field \<noteq> field_name
                          then (append_child n
                                  (desc_annotation [] ('' (alias '' @ [CHR 0x27] @ field_alias field
                                                        @ [CHR 0x27] @ '')'') []),
                                Inr ())
                          else (n, Inr ()))))))"

text \<open>\<open>PydanticField.handle_signature\<close>.\<close>

definition PydanticField_handle_signature ::
  "host \<Rightarrow> directive \<Rightarrow> string \<Rightarrow> signode \<Rightarrow> signode \<times> (error + string \<times> string)" where
  "PydanticField_handle_signature h d sig n =
     (case super_handle_signature h d sig n of
        (n1, Inl e) \<Rightarrow> (n1, Inl e)
      | (n1, Inr (fullname, prefix)) \<Rightarrow>
          (if truthy (get_option_value d ''field-show-alias'')
           then (case add_alias h n1 of
                   (n2, Inl e) \<Rightarrow> (n2, Inl e)
                 | (n2, Inr u) \<Rightarrow> (n2, Inr (fullname, prefix)))
           else (n1, Inr (fullname, prefix))))"

text \<open>
  The loop of \<open>replace_return_node\<close> over \<open>fields[1:]\<close>: a separator and a
  reference for each further field.
\<close>

fun add_field_hrefs :: "host \<Rightarrow> directive \<Rightarrow> string list \<Rightarrow> signode \<Rightarrow> signode" where
  "add_field_hrefs h d [] n = n"
| "add_field_hrefs h d (field # rest) n =
     add_field_hrefs h d rest
       (append_child (append_child n (desc_annotation [] '', '' []))
          (create_field_href h field (env d)))"

text \<open>The text of the separator annotation: two spaces, U+00BB, two spaces.\<close>

definition arrow_text :: string where
  "arrow_text = ''  '' @ [CHR 0xBB] @ ''  ''"

text \<open>\<open>PydanticValidator.replace_return_node\<close>.\<close>

definition replace_return_node :: "host \<Rightarrow> directive \<Rightarrow> signode \<Rightarrow> signode \<times> (error + unit)" where
  "replace_return_node h d n =
     (let n1 = n\<lparr>children := remove_node_by_tagname (children n) ''desc_parameterlist''\<rparr>;
          class_name = ''autodoc_pydantic_validator_arrow'';
          n2 = append_child n1 (desc_annotation [] arrow_text [class_name])
      in (case signode_getitem n2 ''fullname'' of
            Inl e \<Rightarrow> (n2, Inl e)
          | Inr fullname \<Rightarrow>
              (case py_getitem (py_split CHR ''.'' fullname) (- 1) of
                 Inl e \<Rightarrow> (n2, Inl e)
               | Inr validator_name \<Rightarrow>
                   (case from_signode h n2 of
                      Inl e \<Rightarrow> (n2, Inl e)
                    | Inr wrapper \<Rightarrow>
                        (let flds = get_fields_for_validator wrapper validator_name
                         in (case py_getitem flds 0 of
                               Inl e \<Rightarrow> (n2, Inl e)
                             | Inr first_field \<Rightarrow>
                                 (add_field_hrefs h d (drop 1 flds)
                                    (append_child n2 (create_field_href h first_field (env d))),
                                  Inr ())))))))"

text \<open>\<open>PydanticValidator.handle_signature\<close>.\<close>

definition PydanticValidator_handle_signature ::
  "host \<Rightarrow> directive \<Rightarrow> string \<Rightarrow> signode \<Rightarrow> signode \<times> (error + string \<times> string)" where
  "PydanticValidator_handle_signature h d sig n =
     (case super_handle_signature h d sig n of
        (n1, Inl e) \<Rightarrow> (n1, Inl e)
      | (n1, Inr (fullname, prefix)) \<Rightarrow>
          (if truthy (get_option_value d ''validator-replace-signature'')
           then (case replace_return_node h d n1 of
                   (n2, Inl e) \<Rightarrow> (n2, Inl e)
                 | (n2, Inr u) \<Rightarrow> (n2, Inr (fullname, prefix)))
           else (n1, Inr (fullname, prefix))))"

text \<open>
  The method \<open>handle_signature\<close> that the host calls on a directive: the field and
  validator classes override it, the model, settings and config classes inherit the
  generic one.
\<close>

definition handle_signature ::
  "host \<Rightarrow> directive \<Rightarrow> string \<Rightarrow> signode \<Rightarrow> signode \<times> (error + string \<times> string)" where
  "handle_signature h d sig n =
     (case kind d of
        PydanticField \<Rightarrow> PydanticField_handle_signature h d sig n
      | PydanticValidator \<Rightarrow> PydanticValidator_handle_signature h d sig n
      | _ \<Rightarrow> super_handle_signature h d sig n)"

section \<open>Example inputs\<close>

text \<open>
  A class \<open>Model\<close> with the field \<open>identifier\<close> (alias \<open>id\<close>) and the field
  \<open>title\<close> (no alias of its own), a validator \<open>check\<close> bound to both fields and a
  validator \<open>idle\<close> bound to none.
\<close>

definition example_class :: model_class where
  "example_class =
     \<lparr>model_fields = [\<lparr>name = ''identifier'', field_alias = ''id''\<rparr>,
                       \<lparr>name = ''title'', field_alias = ''title''\<rparr>],
      bindings = [(''check'', ''identifier''), (''other'', ''title''), (''check'', ''title'')]\<rparr>"

text \<open>
  A host whose generic handling records the dotted name on the node, appends the
  prefix annotation, the name and the given further children (the parameter list of a
  method), and returns the name with an empty prefix.
\<close>

definition example_host :: "node list \<Rightarrow> host" where
  "example_host params =
     \<lparr>generic_handle_signature =
        (\<lambda>prefix sig n.
           (n\<lparr>attributes := (attributes n)(''fullname'' \<mapsto> sig),
              children := children n @ [desc_annotation prefix prefix [],
                                        Element ''desc_name'' [] [Text sig]] @ params\<rparr>,
            Inr (sig, []))),
      create_field_href = (\<lambda>field e. Element ''reference'' [] [Text field]),
      locate = [''Model.identifier'' \<mapsto> example_class, ''Model.title'' \<mapsto> example_class,
                ''Model.check'' \<mapsto> example_class, ''Model.idle'' \<mapsto> example_class]\<rparr>"

definition example_directive :: "directive_kind \<Rightarrow> (string \<rightharpoonup> pyval) \<Rightarrow> directive" where
  "example_directive k opts = \<lparr>kind = k, options = opts, env = \<lparr>config = Map.empty\<rparr>\<rparr>"

definition example_node :: "string \<Rightarrow> node list \<Rightarrow> signode" where
  "example_node dotted kids = \<lparr>attributes = [''fullname'' \<mapsto> dotted], children = kids\<rparr>"

section \<open>Auxiliary facts\<close>

lemma py_split_not_Nil: "py_split sep s \<noteq> []"
  by (induction s) (auto split: list.splits)

lemma py_getitem_last: "xs \<noteq> [] \<Longrightarrow> py_getitem xs (- 1) = Inr (last xs)"
  by (cases xs rule: rev_cases) (auto simp: py_getitem_def Let_def nth_append)

lemma py_getitem_first: "py_getitem (x # xs) 0 = Inr x"
  by (simp add: py_getitem_def)

lemma py_getitem_Nil: "py_getitem [] i = Inl IndexError"
  by (simp add: py_getitem_def Let_def)

lemma get_field_object_name: "get_field_object_by_name w x = Inr f \<Longrightarrow> name f = x"
  by (auto simp: get_field_object_by_name_def find_Some_iff split: option.splits)

lemma add_field_hrefs_children:
  "add_field_hrefs h d fs n =
     n\<lparr>children := children n @
          concat (map (\<lambda>x. [Element ''desc_annotation'' [] [Text '', ''],
                             create_field_href h x (env d)]) fs)\<rparr>"
  by (induction fs arbitrary: n) (simp_all add: append_child_def desc_annotation_def)

lemma filter_snoc_differs:
  assumes "P a"
  shows "filter P xs @ [a] \<noteq> xs"
proof
  assume eq: "filter P xs @ [a] = xs"
  have "\<forall>x \<in> set xs. P x"
  proof
    fix x assume "x \<in> set xs"
    then have "x \<in> set (filter P xs @ [a])" using eq by simp
    then show "P x" using assms by auto
  qed
  then have "filter P xs = xs" by (simp add: filter_id_conv)
  with eq show False by simp
qed

text \<open>
  What \<open>add_alias\<close> and \<open>replace_return_node\<close> add to a node, and how they end,
  depends on the attributes of the node only, not on its children.
\<close>

lemma add_alias_appends:
  assumes "attributes m' = attributes m"
  shows "\<exists>X out. add_alias h m = (m\<lparr>children := children m @ X\<rparr>, out)
               \<and> add_alias h m' = (m'\<lparr>children := children m' @ X\<rparr>, out)"
proof (cases "snd (add_alias h m)")
  case (Inl e)
  then have "add_alias h m = (m\<lparr>children := children m @ []\<rparr>, Inl e)
           \<and> add_alias h m' = (m'\<lparr>children := children m' @ []\<rparr>, Inl e)"
    using assms
    by (auto simp: add_alias_def signode_getitem_def from_signode_def append_child_def
        split: sum.splits option.splits if_splits)
  then show ?thesis by blast
next
  case (Inr u)
  let ?X = "drop (length (children m)) (children (fst (add_alias h m)))"
  from Inr have "add_alias h m = (m\<lparr>children := children m @ ?X\<rparr>, Inr u)
           \<and> add_alias h m' = (m'\<lparr>children := children m' @ ?X\<rparr>, Inr u)"
    using assms
    by (auto simp: add_alias_def signode_getitem_def from_signode_def append_child_def
        split: sum.splits option.splits if_splits)
  then show ?thesis by blast
qed

lemma replace_return_node_appends:
  assumes "attributes m' = attributes m"
  shows "\<exists>Y out.
           replace_return_node h d m =
             (m\<lparr>children := filter (\<lambda>c. tagname c \<noteq> ''desc_parameterlist'') (children m) @ Y\<rparr>,
              out)
         \<and> replace_return_node h d m' =
             (m'\<lparr>children := filter (\<lambda>c. tagname c \<noteq> ''desc_parameterlist'') (children m') @ Y\<rparr>,
              out)"
proof -
  let ?k = "\<lambda>cs. filter (\<lambda>c. tagname c \<noteq> ''desc_parameterlist'') cs"
  let ?Y = "drop (length (?k (children m))) (children (fst (replace_return_node h d m)))"
  have "replace_return_node h d m =
          (m\<lparr>children := ?k (children m) @ ?Y\<rparr>, snd (replace_return_node h d m))
      \<and> replace_return_node h d m' =
          (m'\<lparr>children := ?k (children m') @ ?Y\<rparr>, snd (replace_return_node h d m))"
    using assms
    by (auto simp: replace_return_node_def Let_def signode_getitem_def from_signode_def
        append_child_def add_field_hrefs_children remove_node_by_tagname_def
        split: sum.splits option.splits)
  then show ?thesis by blast
qed

section \<open>Signature prefixes\<close>

text \<open>
  C1, as amended. For each of the five directive kinds, \<open>get_signature_prefix\<close>
  returns the default label of the kind and one space when the option
  \<open><construct>-signature-prefix\<close> resolves to nothing, and the override text and
  one space when the option resolves to a text that is not empty. The default labels
  are \<open>class\<close> for model, settings and config class, \<open>attribute\<close> for field and
  \<open>classmethod\<close> for validator.
\<close>

theorem signature_prefix_default_or_override:
  "(get_option_value d (config_name (kind d) @ ''-signature-prefix'') = PNone \<longrightarrow>
      get_signature_prefix d sig = default_prefix (kind d) @ '' '')
   \<and> (s \<noteq> [] \<and> get_option_value d (config_name (kind d) @ ''-signature-prefix'') = PStr s \<longrightarrow>
      get_signature_prefix d sig = s @ '' '')
   \<and> default_prefix PydanticModel = ''class''
   \<and> default_prefix PydanticSettings = ''class''
   \<and> default_prefix PydanticConfigClass = ''class''
   \<and> default_prefix PydanticField = ''attribute''
   \<and> default_prefix PydanticValidator = ''classmethod''"
  by (simp add: get_signature_prefix_def)

theorem signature_prefix_default_or_override_witness:
  "get_signature_prefix (example_directive PydanticValidator Map.empty) ''Model.check''
     = ''classmethod ''
   \<and> get_signature_prefix
       (example_directive PydanticModel [''model-signature-prefix'' \<mapsto> PStr ''pydantic model''])
       ''Model'' = ''pydantic model ''"
  using signature_prefix_default_or_override
          [of "example_directive PydanticValidator Map.empty" "''Model.check''" "''x''"]
        signature_prefix_default_or_override
          [of "example_directive PydanticModel
                 [''model-signature-prefix'' \<mapsto> PStr ''pydantic model'']"
              "''Model''" "''pydantic model''"]
  by (simp add: get_option_value_def example_directive_def)

text \<open>
  C1 as stated fails: a model directive whose option \<open>model-signature-prefix\<close> is
  set to the empty text returns \<open>class\<close> and a space, not the empty override and a
  space.
\<close>

theorem set_override_counterexample:
  "options (example_directive PydanticModel [''model-signature-prefix'' \<mapsto> PStr []])
     ''model-signature-prefix'' = Some (PStr [])
   \<and> get_signature_prefix
       (example_directive PydanticModel [''model-signature-prefix'' \<mapsto> PStr []]) ''Model''
     = ''class ''
   \<and> get_signature_prefix
       (example_directive PydanticModel [''model-signature-prefix'' \<mapsto> PStr []]) ''Model''
     \<noteq> [] @ '' ''"
  by (simp add: get_signature_prefix_def get_option_value_def example_directive_def)

text \<open>
  C9. For every directive kind, when the option \<open><construct>-signature-prefix\<close>
  resolves to the empty text, \<open>get_signature_prefix\<close> returns the default label of
  the kind followed by one space: the empty override counts as unset.
\<close>

theorem empty_override_gives_default:
  assumes "get_option_value d (config_name (kind d) @ ''-signature-prefix'') = PStr []"
  shows "get_signature_prefix d sig = default_prefix (kind d) @ '' ''"
  using assms by (simp add: get_signature_prefix_def)

theorem empty_override_gives_default_witness:
  "get_option_value (example_directive PydanticField [''field-signature-prefix'' \<mapsto> PStr []])
     (config_name PydanticField @ ''-signature-prefix'') = PStr []
   \<and> get_signature_prefix
       (example_directive PydanticField [''field-signature-prefix'' \<mapsto> PStr []])
       ''Model.identifier'' = ''attribute ''"
proof -
  let ?d = "example_directive PydanticField [''field-signature-prefix'' \<mapsto> PStr []]"
  have h: "get_option_value ?d (config_name (kind ?d) @ ''-signature-prefix'') = PStr []"
    by (simp add: get_option_value_def example_directive_def)
  show ?thesis
    using h empty_override_gives_default [OF h, of "''Model.identifier''"]
    by (simp add: example_directive_def)
qed

section \<open>The field directive\<close>

text \<open>
  C2. When the generic handling has returned, the option \<open>field-show-alias\<close>
  resolves true and the field found under the last component of the node's dotted
  name has an alias that differs from its name, \<open>PydanticField.handle_signature\<close>
  appends to the node exactly one annotation, whose text is the alias of that field
  rendered as \<open> (alias '<alias>')\<close>, and returns the pair of the generic handling. For
  the field \<open>identifier\<close> with the alias \<open>id\<close> the text is \<open> (alias 'id')\<close>.
\<close>

theorem field_alias_annotation_appended:
  assumes "super_handle_signature h d sig n = (n1, Inr r)"
    and "truthy (get_option_value d ''field-show-alias'')"
    and "attributes n1 ''fullname'' = Some fullname"
    and "locate h fullname = Some w"
    and "get_field_object_by_name w (last (py_split CHR ''.'' fullname)) = Inr f"
    and "field_alias f \<noteq> name f"
  shows "PydanticField_handle_signature h d sig n =
          (n1\<lparr>children := children n1 @
                [Element ''desc_annotation'' []
                   [Text ('' (alias '' @ [CHR 0x27] @ field_alias f @ [CHR 0x27] @ '')'')]]\<rparr>,
           Inr r)"
  using assms get_field_object_name [OF assms(5)]
  by (cases r)
     (simp add: PydanticField_handle_signature_def add_alias_def signode_getitem_def
        from_signode_def py_getitem_last py_split_not_Nil append_child_def desc_annotation_def)

theorem field_alias_annotation_appended_witness:
  "children (fst (PydanticField_handle_signature (example_host [])
      (example_directive PydanticField [''field-show-alias'' \<mapsto> PBool True])
      ''Model.identifier'' \<lparr>attributes = Map.empty, children = []\<rparr>))
   = [Element ''desc_annotation'' [] [Text ''attribute ''],
      Element ''desc_name'' [] [Text ''Model.identifier''],
      Element ''desc_annotation'' [] [Text '' (alias 'id')'']]"
proof -
  let ?h = "example_host []"
  let ?d = "example_directive PydanticField [''field-show-alias'' \<mapsto> PBool True]"
  let ?n = "\<lparr>attributes = Map.empty, children = []\<rparr> :: signode"
  let ?n1 = "\<lparr>attributes = [''fullname'' \<mapsto> ''Model.identifier''],
              children = [Element ''desc_annotation'' [] [Text ''attribute ''],
                          Element ''desc_name'' [] [Text ''Model.identifier'']]\<rparr> :: signode"
  let ?f = "\<lparr>name = ''identifier'', field_alias = ''id''\<rparr>"
  have h1: "super_handle_signature ?h ?d ''Model.identifier'' ?n
              = (?n1, Inr (''Model.identifier'', []))"
    by (simp add: super_handle_signature_def example_host_def get_signature_prefix_def
          get_option_value_def example_directive_def desc_annotation_def)
  have h2: "truthy (get_option_value ?d ''field-show-alias'')"
    by (simp add: get_option_value_def example_directive_def)
  have h3: "attributes ?n1 ''fullname'' = Some ''Model.identifier''"
    by simp
  have h4: "locate ?h ''Model.identifier'' = Some example_class"
    by (simp add: example_host_def)
  have h5: "get_field_object_by_name example_class
              (last (py_split CHR ''.'' ''Model.identifier'')) = Inr ?f"
    by (simp add: get_field_object_by_name_def example_class_def)
  have h6: "field_alias ?f \<noteq> name ?f"
    by simp
  show ?thesis
    using field_alias_annotation_appended [OF h1 h2 h3 h4 h5 h6]
    by simp
qed

text \<open>
  C3. When the field found under the last component of the node's dotted name has an
  alias equal to its name, \<open>PydanticField.add_alias\<close> returns normally and leaves the
  node as it was: no annotation is appended.
\<close>

theorem add_alias_same_name_unchanged:
  assumes "attributes n ''fullname'' = Some fullname"
    and "locate h fullname = Some w"
    and "get_field_object_by_name w (last (py_split CHR ''.'' fullname)) = Inr f"
    and "field_alias f = name f"
  shows "add_alias h n = (n, Inr ())"
  using assms get_field_object_name [OF assms(3)]
  by (simp add: add_alias_def signode_getitem_def from_signode_def py_getitem_last
        py_split_not_Nil)

theorem add_alias_same_name_unchanged_witness:
  "add_alias (example_host [])
     (example_node ''Model.title'' [Element ''desc_name'' [] [Text ''title'']])
   = (example_node ''Model.title'' [Element ''desc_name'' [] [Text ''title'']], Inr ())"
proof -
  let ?n = "example_node ''Model.title'' [Element ''desc_name'' [] [Text ''title'']]"
  let ?f = "\<lparr>name = ''title'', field_alias = ''title''\<rparr>"
  have h1: "attributes ?n ''fullname'' = Some ''Model.title''"
    by (simp add: example_node_def)
  have h2: "locate (example_host []) ''Model.title'' = Some example_class"
    by (simp add: example_host_def)
  have h3: "get_field_object_by_name example_class
              (last (py_split CHR ''.'' ''Model.title'')) = Inr ?f"
    by (simp add: get_field_object_by_name_def example_class_def)
  have h4: "field_alias ?f = name ?f"
    by simp
  show ?thesis
    by (rule add_alias_same_name_unchanged [OF h1 h2 h3 h4])
qed

section \<open>The validator directive\<close>

text \<open>
  C4. For a validator with the bound fields \<open>f # fs\<close> (so \<open>N = 1 + length fs\<close>, at
  least one), as the member wrapper reports them, \<open>replace_return_node\<close> returns
  normally, removes the parameter list from the children of the node and appends the
  separator annotation, then the reference for \<open>f\<close>, then for each further field in
  order a \<open>, \<close> annotation and its reference: \<open>N\<close> references joined by \<open>, \<close>.
\<close>

theorem validator_fields_replace_parameters:
  assumes "attributes n ''fullname'' = Some fullname"
    and "locate h fullname = Some w"
    and "get_fields_for_validator w (last (py_split CHR ''.'' fullname)) = f # fs"
  shows "replace_return_node h d n =
          (n\<lparr>children :=
               filter (\<lambda>c. tagname c \<noteq> ''desc_parameterlist'') (children n)
               @ [Element ''desc_annotation'' [''autodoc_pydantic_validator_arrow'']
                    [Text arrow_text]]
               @ create_field_href h f (env d)
                 # concat (map (\<lambda>x. [Element ''desc_annotation'' [] [Text '', ''],
                                      create_field_href h x (env d)]) fs)\<rparr>,
           Inr ())"
  using assms
  by (simp add: replace_return_node_def Let_def signode_getitem_def from_signode_def
        py_getitem_last py_split_not_Nil py_getitem_first add_field_hrefs_children
        append_child_def desc_annotation_def remove_node_by_tagname_def)

theorem validator_fields_replace_parameters_witness:
  "replace_return_node
     (example_host []) (example_directive PydanticValidator Map.empty)
     (example_node ''Model.check''
        [Element ''desc_name'' [] [Text ''check''],
         Element ''desc_parameterlist'' [] [Text ''cls, v'']])
   = (example_node ''Model.check''
        [Element ''desc_name'' [] [Text ''check''],
         Element ''desc_annotation'' [''autodoc_pydantic_validator_arrow'']
           [Text [CHR '' '', CHR '' '', CHR 0xBB, CHR '' '', CHR '' '']],
         Element ''reference'' [] [Text ''identifier''],
         Element ''desc_annotation'' [] [Text '', ''],
         Element ''reference'' [] [Text ''title'']],
      Inr ())"
proof -
  let ?n = "example_node ''Model.check''
              [Element ''desc_name'' [] [Text ''check''],
               Element ''desc_parameterlist'' [] [Text ''cls, v'']]"
  have h1: "attributes ?n ''fullname'' = Some ''Model.check''"
    by (simp add: example_node_def)
  have h2: "locate (example_host []) ''Model.check'' = Some example_class"
    by (simp add: example_host_def)
  have h3: "get_fields_for_validator example_class (last (py_split CHR ''.'' ''Model.check''))
              = [''identifier'', ''title'']"
    by (simp add: get_fields_for_validator_def example_class_def)
  show ?thesis
    using validator_fields_replace_parameters
            [OF h1 h2 h3, of "example_directive PydanticValidator Map.empty"]
    by (simp add: example_node_def example_host_def arrow_text_def)
qed

text \<open>
  C5. For a validator with no bound field, \<open>replace_return_node\<close> does not return
  normally: the access \<open>fields[0]\<close> raises \<open>IndexError\<close>.
\<close>

theorem zero_fields_raises:
  assumes "attributes n ''fullname'' = Some fullname"
    and "locate h fullname = Some w"
    and "get_fields_for_validator w (last (py_split CHR ''.'' fullname)) = []"
  shows "snd (replace_return_node h d n) = Inl IndexError"
  using assms
  by (simp add: replace_return_node_def Let_def signode_getitem_def from_signode_def
        py_getitem_last py_split_not_Nil py_getitem_Nil append_child_def)

theorem zero_fields_raises_witness:
  "get_fields_for_validator example_class ''idle'' = []
   \<and> snd (replace_return_node
       (example_host []) (example_directive PydanticValidator Map.empty)
       (example_node ''Model.idle''
          [Element ''desc_name'' [] [Text ''idle''],
           Element ''desc_parameterlist'' [] [Text ''cls, v'']])) = Inl IndexError"
proof -
  let ?n = "example_node ''Model.idle''
              [Element ''desc_name'' [] [Text ''idle''],
               Element ''desc_parameterlist'' [] [Text ''cls, v'']]"
  have h1: "attributes ?n ''fullname'' = Some ''Model.idle''"
    by (simp add: example_node_def)
  have h2: "locate (example_host []) ''Model.idle'' = Some example_class"
    by (simp add: example_host_def)
  have h3: "get_fields_for_validator example_class (last (py_split CHR ''.'' ''Model.idle'')) = []"
    by (simp add: get_fields_for_validator_def example_class_def)
  show ?thesis
    using h3 zero_fields_raises
                [OF h1 h2 h3, of "example_directive PydanticValidator Map.empty"]
    by simp
qed

text \<open>
  C10. Whenever \<open>replace_return_node\<close> raises, the node has already been rewritten:
  it is the input node with the parameter list removed and the separator annotation
  appended, and its children differ from those of the input node.
\<close>

theorem replace_return_node_not_atomic:
  assumes "snd (replace_return_node h d n) = Inl e"
  shows "fst (replace_return_node h d n) =
           n\<lparr>children :=
               filter (\<lambda>c. tagname c \<noteq> ''desc_parameterlist'') (children n)
               @ [Element ''desc_annotation'' [''autodoc_pydantic_validator_arrow'']
                    [Text arrow_text]]\<rparr>
         \<and> children (fst (replace_return_node h d n)) \<noteq> children n"
proof -
  let ?a = "Element ''desc_annotation'' [''autodoc_pydantic_validator_arrow''] [Text arrow_text]"
  have st: "fst (replace_return_node h d n) =
              n\<lparr>children :=
                  filter (\<lambda>c. tagname c \<noteq> ''desc_parameterlist'') (children n) @ [?a]\<rparr>"
    using assms
    by (auto simp: replace_return_node_def Let_def append_child_def
          desc_annotation_def remove_node_by_tagname_def split: sum.splits)
  have "tagname ?a \<noteq> ''desc_parameterlist''" by simp
  then have "filter (\<lambda>c. tagname c \<noteq> ''desc_parameterlist'') (children n) @ [?a]
               \<noteq> children n"
    by (rule filter_snoc_differs [where P = "\<lambda>c. tagname c \<noteq> ''desc_parameterlist''"])
  with st show ?thesis by simp
qed

theorem replace_return_node_not_atomic_witness:
  "replace_return_node
     (example_host []) (example_directive PydanticValidator Map.empty)
     (example_node ''Model.idle''
        [Element ''desc_name'' [] [Text ''idle''],
         Element ''desc_parameterlist'' [] [Text ''cls, v'']])
   = (example_node ''Model.idle''
        [Element ''desc_name'' [] [Text ''idle''],
         Element ''desc_annotation'' [''autodoc_pydantic_validator_arrow'']
           [Text [CHR '' '', CHR '' '', CHR 0xBB, CHR '' '', CHR '' '']]],
      Inl IndexError)"
proof -
  let ?h = "example_host []"
  let ?d = "example_directive PydanticValidator Map.empty"
  let ?n = "example_node ''Model.idle''
              [Element ''desc_name'' [] [Text ''idle''],
               Element ''desc_parameterlist'' [] [Text ''cls, v'']]"
  have h1: "snd (replace_return_node ?h ?d ?n) = Inl IndexError"
    by (simp add: replace_return_node_def Let_def signode_getitem_def from_signode_def
          py_getitem_def get_fields_for_validator_def example_class_def example_host_def
          example_node_def append_child_def)
  have "fst (replace_return_node ?h ?d ?n)
          = example_node ''Model.idle''
              [Element ''desc_name'' [] [Text ''idle''],
               Element ''desc_annotation'' [''autodoc_pydantic_validator_arrow'']
                 [Text [CHR '' '', CHR '' '', CHR 0xBB, CHR '' '', CHR '' '']]]"
    using replace_return_node_not_atomic [OF h1]
    by (simp add: example_node_def arrow_text_def)
  with h1 show ?thesis
    by (simp add: prod_eq_iff)
qed

text \<open>
  C6. When the option \<open>validator-replace-signature\<close> resolves false,
  \<open>PydanticValidator.handle_signature\<close> is the generic handling: the node is as the
  generic handling left it and the result is the one of the generic handling.
\<close>

theorem validator_signature_kept:
  assumes "\<not> truthy (get_option_value d ''validator-replace-signature'')"
  shows "PydanticValidator_handle_signature h d sig n = super_handle_signature h d sig n"
  using assms
  by (auto simp: PydanticValidator_handle_signature_def split: prod.splits sum.splits)

theorem validator_signature_kept_witness:
  "PydanticValidator_handle_signature
     (example_host [Element ''desc_parameterlist'' [] [Text ''cls, v'']])
     (example_directive PydanticValidator [''validator-replace-signature'' \<mapsto> PBool False])
     ''Model.check'' \<lparr>attributes = Map.empty, children = []\<rparr>
   = (example_node ''Model.check''
        [Element ''desc_annotation'' [] [Text ''classmethod ''],
         Element ''desc_name'' [] [Text ''Model.check''],
         Element ''desc_parameterlist'' [] [Text ''cls, v'']],
      Inr (''Model.check'', []))"
proof -
  let ?d = "example_directive PydanticValidator
              [''validator-replace-signature'' \<mapsto> PBool False]"
  have h1: "\<not> truthy (get_option_value ?d ''validator-replace-signature'')"
    by (simp add: get_option_value_def example_directive_def)
  show ?thesis
    using validator_signature_kept [OF h1]
    by (simp add: super_handle_signature_def example_host_def get_signature_prefix_def
          get_option_value_def example_directive_def example_node_def desc_annotation_def)
qed

section \<open>The model, settings and config class directives\<close>

text \<open>
  C7. For a model, settings or config class directive, \<open>handle_signature\<close> is the
  generic handling of the host, given the prefix of \<open>get_signature_prefix\<close>: the
  directive adds nothing to the node, and the result does not depend on the class
  lookup or on the constructor of references.
\<close>

theorem class_directives_only_prefix:
  assumes "kind d \<in> {PydanticModel, PydanticSettings, PydanticConfigClass}"
  shows "handle_signature h d sig n
           = generic_handle_signature h (get_signature_prefix d sig) sig n
       \<and> handle_signature (h\<lparr>locate := l, create_field_href := c\<rparr>) d sig n
           = handle_signature h d sig n"
  using assms
  by (auto simp: handle_signature_def super_handle_signature_def)

theorem class_directives_only_prefix_witness:
  "handle_signature (example_host []) (example_directive PydanticSettings Map.empty)
     ''Settings'' \<lparr>attributes = Map.empty, children = []\<rparr>
   = (example_node ''Settings''
        [Element ''desc_annotation'' [] [Text ''class ''],
         Element ''desc_name'' [] [Text ''Settings'']],
      Inr (''Settings'', []))"
proof -
  let ?d = "example_directive PydanticSettings Map.empty"
  have h1: "kind ?d \<in> {PydanticModel, PydanticSettings, PydanticConfigClass}"
    by (simp add: example_directive_def)
  show ?thesis
    using class_directives_only_prefix [OF h1, of "example_host []"]
    by (simp add: example_host_def get_signature_prefix_def get_option_value_def
          example_directive_def example_node_def desc_annotation_def)
qed

section \<open>Repeated calls\<close>

text \<open>
  C8, as amended. The handlers keep no state between calls: the nodes that
  \<open>PydanticField.handle_signature\<close> and \<open>PydanticValidator.handle_signature\<close> add
  after the generic handling, and the way they end, are the same for any two input
  nodes on which the generic handling leaves the same attributes and returns the same
  pair, whatever children the nodes already carry. The field handler appends its nodes
  \<open>X\<close> to the children left by the generic handling; the validator handler appends
  its nodes \<open>Y\<close> to them, without the parameter list when the replacement is on. In
  particular a handler applied to its own output adds the same nodes once more.
\<close>

theorem handlers_add_same_nodes:
  assumes "super_handle_signature h d sig n = (m, Inr r)"
    and "super_handle_signature h d sig n' = (m', Inr r)"
    and "attributes m' = attributes m"
  shows "(\<exists>X out.
            PydanticField_handle_signature h d sig n = (m\<lparr>children := children m @ X\<rparr>, out)
          \<and> PydanticField_handle_signature h d sig n' = (m'\<lparr>children := children m' @ X\<rparr>, out))
       \<and> (\<exists>Y out.
            PydanticValidator_handle_signature h d sig n =
              (m\<lparr>children :=
                   (if truthy (get_option_value d ''validator-replace-signature'')
                    then filter (\<lambda>c. tagname c \<noteq> ''desc_parameterlist'') (children m)
                    else children m) @ Y\<rparr>, out)
          \<and> PydanticValidator_handle_signature h d sig n' =
              (m'\<lparr>children :=
                   (if truthy (get_option_value d ''validator-replace-signature'')
                    then filter (\<lambda>c. tagname c \<noteq> ''desc_parameterlist'') (children m')
                    else children m') @ Y\<rparr>, out))"
proof
  show "\<exists>X out.
          PydanticField_handle_signature h d sig n = (m\<lparr>children := children m @ X\<rparr>, out)
        \<and> PydanticField_handle_signature h d sig n' = (m'\<lparr>children := children m' @ X\<rparr>, out)"
  proof (cases "truthy (get_option_value d ''field-show-alias'')")
    case True
    from add_alias_appends [OF assms(3), of h] obtain X out where
      a: "add_alias h m = (m\<lparr>children := children m @ X\<rparr>, out)"
         "add_alias h m' = (m'\<lparr>children := children m' @ X\<rparr>, out)"
      by blast
    have "PydanticField_handle_signature h d sig n
            = (m\<lparr>children := children m @ X\<rparr>, case out of Inl e \<Rightarrow> Inl e | Inr u \<Rightarrow> Inr r)
        \<and> PydanticField_handle_signature h d sig n'
            = (m'\<lparr>children := children m' @ X\<rparr>, case out of Inl e \<Rightarrow> Inl e | Inr u \<Rightarrow> Inr r)"
      using True assms(1,2) a
      by (cases r) (simp add: PydanticField_handle_signature_def split: sum.splits)
    then show ?thesis by blast
  next
    case False
    have "PydanticField_handle_signature h d sig n = (m\<lparr>children := children m @ []\<rparr>, Inr r)
        \<and> PydanticField_handle_signature h d sig n' = (m'\<lparr>children := children m' @ []\<rparr>, Inr r)"
      using False assms(1,2)
      by (cases r) (simp add: PydanticField_handle_signature_def)
    then show ?thesis by blast
  qed
next
  let ?t = "truthy (get_option_value d ''validator-replace-signature'')"
  let ?k = "\<lambda>cs. if ?t then filter (\<lambda>c. tagname c \<noteq> ''desc_parameterlist'') cs else cs"
  show "\<exists>Y out.
          PydanticValidator_handle_signature h d sig n = (m\<lparr>children := ?k (children m) @ Y\<rparr>, out)
        \<and> PydanticValidator_handle_signature h d sig n' = (m'\<lparr>children := ?k (children m') @ Y\<rparr>, out)"
  proof (cases ?t)
    case True
    from replace_return_node_appends [OF assms(3), of h d] obtain Y out where
      a: "replace_return_node h d m =
            (m\<lparr>children := filter (\<lambda>c. tagname c \<noteq> ''desc_parameterlist'') (children m) @ Y\<rparr>,
             out)"
         "replace_return_node h d m' =
            (m'\<lparr>children := filter (\<lambda>c. tagname c \<noteq> ''desc_parameterlist'') (children m') @ Y\<rparr>,
             out)"
      by blast
    have "PydanticValidator_handle_signature h d sig n
            = (m\<lparr>children := ?k (children m) @ Y\<rparr>, case out of Inl e \<Rightarrow> Inl e | Inr u \<Rightarrow> Inr r)
        \<and> PydanticValidator_handle_signature h d sig n'
            = (m'\<lparr>children := ?k (children m') @ Y\<rparr>, case out of Inl e \<Rightarrow> Inl e | Inr u \<Rightarrow> Inr r)"
      using True assms(1,2) a
      by (cases r) (simp add: PydanticValidator_handle_signature_def split: sum.splits)
    then show ?thesis by blast
  next
    case False
    have "PydanticValidator_handle_signature h d sig n
            = (m\<lparr>children := ?k (children m) @ []\<rparr>, Inr r)
        \<and> PydanticValidator_handle_signature h d sig n'
            = (m'\<lparr>children := ?k (children m') @ []\<rparr>, Inr r)"
      using False assms(1,2)
      by (cases r) (simp add: PydanticValidator_handle_signature_def)
    then show ?thesis by blast
  qed
qed

text \<open>
  The field handler on the empty node and then on its own output: the second call
  appends the alias annotation that the first call appended.
\<close>

theorem handlers_add_same_nodes_witness:
  "PydanticField_handle_signature (example_host [])
     (example_directive PydanticField [''field-show-alias'' \<mapsto> PBool True])
     ''Model.identifier''
     (example_node ''Model.identifier''
        [Element ''desc_annotation'' [] [Text ''attribute ''],
         Element ''desc_name'' [] [Text ''Model.identifier''],
         Element ''desc_annotation'' [] [Text '' (alias 'id')'']])
   = (example_node ''Model.identifier''
        [Element ''desc_annotation'' [] [Text ''attribute ''],
         Element ''desc_name'' [] [Text ''Model.identifier''],
         Element ''desc_annotation'' [] [Text '' (alias 'id')''],
         Element ''desc_annotation'' [] [Text ''attribute ''],
         Element ''desc_name'' [] [Text ''Model.identifier''],
         Element ''desc_annotation'' [] [Text '' (alias 'id')'']],
      Inr (''Model.identifier'', []))"
proof -
  let ?h = "example_host []"
  let ?d = "example_directive PydanticField [''field-show-alias'' \<mapsto> PBool True]"
  let ?A = "Element ''desc_annotation'' [] [Text ''attribute '']"
  let ?N = "Element ''desc_name'' [] [Text ''Model.identifier'']"
  let ?L = "Element ''desc_annotation'' [] [Text '' (alias 'id')'']"
  let ?n = "\<lparr>attributes = Map.empty, children = []\<rparr> :: signode"
  let ?m = "example_node ''Model.identifier'' [?A, ?N]"
  let ?n' = "example_node ''Model.identifier'' [?A, ?N, ?L]"
  let ?m' = "example_node ''Model.identifier'' [?A, ?N, ?L, ?A, ?N]"
  have h1: "super_handle_signature ?h ?d ''Model.identifier'' ?n
              = (?m, Inr (''Model.identifier'', []))"
    by (simp add: super_handle_signature_def example_host_def get_signature_prefix_def
          get_option_value_def example_directive_def example_node_def desc_annotation_def)
  have h2: "super_handle_signature ?h ?d ''Model.identifier'' ?n'
              = (?m', Inr (''Model.identifier'', []))"
    by (simp add: super_handle_signature_def example_host_def get_signature_prefix_def
          get_option_value_def example_directive_def example_node_def desc_annotation_def)
  have h3: "attributes ?m' = attributes ?m"
    by (simp add: example_node_def)
  have first: "PydanticField_handle_signature ?h ?d ''Model.identifier'' ?n
                 = (?n', Inr (''Model.identifier'', []))"
    unfolding PydanticField_handle_signature_def h1
    by (simp add: add_alias_def signode_getitem_def
          from_signode_def py_getitem_def get_field_object_by_name_def example_class_def
          example_host_def get_option_value_def example_directive_def example_node_def
          append_child_def desc_annotation_def)
  from handlers_add_same_nodes [OF h1 h2 h3] obtain X out where
    a: "PydanticField_handle_signature ?h ?d ''Model.identifier'' ?n
          = (?m\<lparr>children := children ?m @ X\<rparr>, out)"
    and b: "PydanticField_handle_signature ?h ?d ''Model.identifier'' ?n'
          = (?m'\<lparr>children := children ?m' @ X\<rparr>, out)"
    by blast
  from a first have "X = [?L]" and "out = Inr (''Model.identifier'', [])"
    by (simp_all add: example_node_def)
  with b show ?thesis
    by (simp add: example_node_def)
qed

text \<open>
  C8 as stated fails: the field handler applied to its own output does not give the
  node of one application. After one call on the empty node the alias annotation is
  there once, after the second call twice.
\<close>

theorem handler_idempotent_counterexample:
  "children (fst (PydanticField_handle_signature (example_host [])
      (example_directive PydanticField [''field-show-alias'' \<mapsto> PBool True])
      ''Model.identifier''
      (fst (PydanticField_handle_signature (example_host [])
         (example_directive PydanticField [''field-show-alias'' \<mapsto> PBool True])
         ''Model.identifier'' \<lparr>attributes = Map.empty, children = []\<rparr>))))
   = [Element ''desc_annotation'' [] [Text ''attribute ''],
      Element ''desc_name'' [] [Text ''Model.identifier''],
      Element ''desc_annotation'' [] [Text '' (alias 'id')''],
      Element ''desc_annotation'' [] [Text ''attribute ''],
      Element ''desc_name'' [] [Text ''Model.identifier''],
      Element ''desc_annotation'' [] [Text '' (alias 'id')'']]
   \<and> children (fst (PydanticField_handle_signature (example_host [])
      (example_directive PydanticField [''field-show-alias'' \<mapsto> PBool True])
      ''Model.identifier''
      (fst (PydanticField_handle_signature (example_host [])
         (example_directive PydanticField [''field-show-alias'' \<mapsto> PBool True])
         ''Model.identifier'' \<lparr>attributes = Map.empty, children = []\<rparr>))))
   \<noteq> children (fst (PydanticField_handle_signature (example_host [])
         (example_directive PydanticField [''field-show-alias'' \<mapsto> PBool True])
         ''Model.identifier'' \<lparr>attributes = Map.empty, children = []\<rparr>))"
  by (simp add: PydanticField_handle_signature_def super_handle_signature_def
        get_signature_prefix_def add_alias_def signode_getitem_def from_signode_def
        py_getitem_def get_field_object_by_name_def example_class_def example_host_def
        get_option_value_def example_directive_def append_child_def desc_annotation_def)

end
